theory Spec2Isabelle
  imports Complex_Main "HOL-Library.AList"
begin

section \<open>The torrent server (backend/server.py): data model\<close>

text \<open>
  The server keeps four pieces of mutable state: the libtorrent session \<open>ses\<close>, the two
  module-level dictionaries \<open>torrent_handles\<close> and \<open>download_stats\<close>, the list
  \<open>websocket_connections\<close>, and the MongoDB collection \<open>db.torrents\<close>. Every handler
  and the background task \<open>monitor_torrents\<close> is modelled as a function from the state to
  an outcome and the state it leaves behind; a raised Python exception is the outcome
  \<open>Inl e\<close>, and the state next to it is what the handler had already written when it
  raised. Handlers run one at a time: the interleaving of coroutines at \<open>await\<close> points is
  not part of this model.

  Python dictionaries keep insertion order, and \<open>monitor_torrents\<close> iterates over one, so
  a dictionary is an association list: \<open>AList.update\<close> replaces the value of a present key
  in place and appends a new key at the end, as assignment \<open>d[k] = v\<close> does.

  Numbers: libtorrent's \<open>progress\<close> is a float in the interval from 0 to 1; it is modelled
  by an exact rational, so rounding is not modelled. Rates and byte counts are integers.
  A \<open>datetime\<close> is an integer timestamp.
\<close>

subsection \<open>Exceptions\<close>

text \<open>\<open>LibtorrentError\<close> is the \<open>RuntimeError\<close> that libtorrent's Python binding raises,
  with its message. An exception that leaves a route is what FastAPI answers with the
  status 500.\<close>

datatype exn =
    HTTPException nat detail
  | LibtorrentError string
  | OverflowError
  | KeyError string
  | ValueError
  | WebSocketError
and detail =
    Detail string
  | Str exn

subsection \<open>libtorrent: torrent_info, torrent_status, session\<close>

record torrent_info =
  name :: string
  total_size :: int
  info_hash :: nat

datatype state_t =
    queued_for_checking
  | checking_files
  | downloading_metadata
  | downloading
  | finished
  | seeding
  | allocating
  | checking_resume_data

record torrent_status =
  progress :: rat
  download_rate :: int
  upload_rate :: int
  state :: state_t
  total_download :: int
  total_upload :: int
  total_wanted :: int
  num_peers :: int
  num_seeds :: int
  error :: string
  is_seeding :: bool
  paused :: bool

datatype torrent_flags = duplicate_is_error | auto_managed | apply_ip_filter | flag_paused

record torrent =
  ti :: torrent_info
  save_path :: string
  flags :: "torrent_flags list"
  download_limit :: int
  upload_limit :: int
  reannounces :: nat
  status :: torrent_status

type_synonym handle = nat

record session =
  torrents :: "handle \<Rightarrow> torrent option"
  next_handle :: handle

subsection \<open>The server's own records\<close>

datatype eta = Unknown | Duration int

text \<open>The \<open>stats\<close> dictionary built by \<open>monitor_torrents\<close>; the key \<open>eta\<close> is added after
  the dictionary has been stored, so it can be absent (\<open>None\<close>).\<close>

record stats =
  stats_progress :: rat
  stats_download_rate :: int
  stats_upload_rate :: int
  stats_state :: state_t
  stats_total_download :: int
  stats_total_upload :: int
  stats_num_peers :: int
  stats_num_seeds :: int
  stats_error :: "string option"
  stats_eta :: "eta option"

text \<open>A document of \<open>db.torrents\<close>: the fields of \<open>TorrentInfo\<close>, and the three fields
  \<open>num_peers\<close>, \<open>num_seeds\<close>, \<open>error\<close> that only \<open>monitor_torrents\<close> sets (absent,
  \<open>None\<close>, until then).\<close>

record torrent_doc =
  doc_id :: string
  doc_name :: string
  doc_size :: int
  doc_progress :: rat
  doc_download_rate :: int
  doc_upload_rate :: int
  doc_eta :: "eta option"
  doc_status :: string
  doc_created_at :: int
  doc_completed_at :: "int option"
  doc_file_path :: "string option"
  doc_download_speed_limit :: "int option"
  doc_upload_speed_limit :: "int option"
  doc_scheduled_start :: "int option"
  doc_num_peers :: "int option"
  doc_num_seeds :: "int option"
  doc_error :: "string option"

type_synonym ws = nat

record websocket =
  ws_open :: bool
  ws_sent :: "(string \<times> stats) list list"

datatype log_record =
    Warning_invalid_handle string
  | Error_torrent string string
  | Info_completed string
  | Info_progress string rat int int int
  | Error_monitor exn
  | Info_added string
  | Error_adding exn
  | Error_uploading exn

record server_state =
  ses :: session
  torrent_handles :: "(string \<times> handle) list"
  download_stats :: "(string \<times> stats) list"
  websocket_connections :: "ws list"
  sockets :: "ws \<Rightarrow> websocket"
  db_torrents :: "torrent_doc list"
  log :: "log_record list"

definition logger :: "log_record \<Rightarrow> server_state \<Rightarrow> server_state" where
  "logger r st = st\<lparr>log := log st @ [r]\<rparr>"

section \<open>The external collaborators\<close>

subsection \<open>The libtorrent session\<close>

text \<open>
  libtorrent is not part of the repository. Its calls are modelled at the interface the
  server uses: a handle is valid while the session still holds its torrent.
  \<open>pause\<close>, \<open>resume\<close>, the limit setters and \<open>force_reannounce\<close> act on the torrent of a
  valid handle; on a handle that is no longer valid they raise, and so does
  \<open>ses.remove_torrent\<close> (\<open>RuntimeError: invalid torrent handle used\<close>). \<open>add_torrent\<close>
  with the flag \<open>duplicate_is_error\<close> raises when the session already holds a torrent
  with the same info-hash. A torrent is added paused only when its flags hold \<open>paused\<close>.
\<close>

definition is_valid :: "session \<Rightarrow> handle \<Rightarrow> bool" where
  "is_valid s h = (torrents s h \<noteq> None)"

definition invalid_handle :: exn where
  "invalid_handle = LibtorrentError ''invalid torrent handle used''"

definition on_torrent :: "(torrent \<Rightarrow> torrent) \<Rightarrow> handle \<Rightarrow> session \<Rightarrow> exn + session" where
  "on_torrent f h s =
     (case torrents s h of
        None \<Rightarrow> Inl invalid_handle
      | Some t \<Rightarrow> Inr (s\<lparr>torrents := (torrents s)(h \<mapsto> f t)\<rparr>))"

definition handle_pause :: "handle \<Rightarrow> session \<Rightarrow> exn + session" where
  "handle_pause = on_torrent (\<lambda>t. t\<lparr>status := (status t)\<lparr>paused := True\<rparr>\<rparr>)"

definition handle_resume :: "handle \<Rightarrow> session \<Rightarrow> exn + session" where
  "handle_resume = on_torrent (\<lambda>t. t\<lparr>status := (status t)\<lparr>paused := False\<rparr>\<rparr>)"

definition set_download_limit :: "int \<Rightarrow> handle \<Rightarrow> session \<Rightarrow> exn + session" where
  "set_download_limit n = on_torrent (\<lambda>t. t\<lparr>download_limit := n\<rparr>)"

definition set_upload_limit :: "int \<Rightarrow> handle \<Rightarrow> session \<Rightarrow> exn + session" where
  "set_upload_limit n = on_torrent (\<lambda>t. t\<lparr>upload_limit := n\<rparr>)"

definition force_reannounce :: "handle \<Rightarrow> session \<Rightarrow> exn + session" where
  "force_reannounce = on_torrent (\<lambda>t. t\<lparr>reannounces := Suc (reannounces t)\<rparr>)"

definition remove_torrent :: "handle \<Rightarrow> session \<Rightarrow> exn + session" where
  "remove_torrent h s =
     (case torrents s h of
        None \<Rightarrow> Inl invalid_handle
      | Some t \<Rightarrow> Inr (s\<lparr>torrents := (torrents s)(h := None)\<rparr>))"

definition initial_status :: "torrent_info \<Rightarrow> torrent_flags list \<Rightarrow> torrent_status" where
  "initial_status info fl =
     \<lparr>progress = 0, download_rate = 0, upload_rate = 0, state = checking_resume_data,
      total_download = 0, total_upload = 0, total_wanted = total_size info,
      num_peers = 0, num_seeds = 0, error = [], is_seeding = False,
      paused = (flag_paused \<in> set fl)\<rparr>"

definition has_info_hash :: "session \<Rightarrow> nat \<Rightarrow> bool" where
  "has_info_hash s ih =
     list_ex (\<lambda>h. case torrents s h of None \<Rightarrow> False | Some t \<Rightarrow> info_hash (ti t) = ih)
       [0 ..< next_handle s]"

definition add_torrent ::
  "torrent_info \<Rightarrow> string \<Rightarrow> torrent_flags list \<Rightarrow> session \<Rightarrow> exn + (handle \<times> session)" where
  "add_torrent info path fl s =
     (if duplicate_is_error \<in> set fl \<and> has_info_hash s (info_hash info)
      then Inl (LibtorrentError ''torrent already exists in session'')
      else
        let h = next_handle s;
            t = \<lparr>ti = info, save_path = path, flags = fl, download_limit = 0,
                 upload_limit = 0, reannounces = 0, status = initial_status info fl\<rparr>
        in Inr (h, s\<lparr>torrents := (torrents s)(h \<mapsto> t), next_handle := Suc h\<rparr>))"

subsection \<open>The document store\<close>

text \<open>
  \<open>db.torrents\<close> is a list of documents in insertion order. \<open>update_one\<close> and
  \<open>delete_one\<close> act on the first document whose \<open>id\<close> matches and do nothing when none
  does (no upsert). The store is taken to be reachable: its calls return.
\<close>

definition insert_one :: "torrent_doc \<Rightarrow> torrent_doc list \<Rightarrow> torrent_doc list" where
  "insert_one d ds = ds @ [d]"

fun update_one ::
  "string \<Rightarrow> (torrent_doc \<Rightarrow> torrent_doc) \<Rightarrow> torrent_doc list \<Rightarrow> torrent_doc list" where
  "update_one i f [] = []"
| "update_one i f (d # ds) = (if doc_id d = i then f d # ds else d # update_one i f ds)"

fun delete_one :: "string \<Rightarrow> torrent_doc list \<Rightarrow> torrent_doc list" where
  "delete_one i [] = []"
| "delete_one i (d # ds) = (if doc_id d = i then ds else d # delete_one i ds)"

fun find_one :: "string \<Rightarrow> torrent_doc list \<Rightarrow> torrent_doc option" where
  "find_one i [] = None"
| "find_one i (d # ds) = (if doc_id d = i then Some d else find_one i ds)"

definition count_documents :: "(torrent_doc \<Rightarrow> bool) \<Rightarrow> torrent_doc list \<Rightarrow> nat" where
  "count_documents q ds = length (filter q ds)"

subsection \<open>WebSockets\<close>

text \<open>\<open>send_text\<close> on an open connection delivers the text; on a closed one it raises.
  The text is \<open>json.dumps\<close> of the update; the model keeps the \<open>stats\<close> value it encodes.\<close>

definition send_text ::
  "ws \<Rightarrow> (string \<times> stats) list \<Rightarrow> (ws \<Rightarrow> websocket) \<Rightarrow> exn + (ws \<Rightarrow> websocket)" where
  "send_text w msg socks =
     (if ws_open (socks w)
      then Inr (socks(w := (socks w)\<lparr>ws_sent := ws_sent (socks w) @ [msg]\<rparr>))
      else Inl WebSocketError)"

subsection \<open>Python built-ins\<close>

text \<open>\<open>del d[k]\<close> raises \<open>KeyError\<close> on a missing key; \<open>xs.remove(x)\<close> raises
  \<open>ValueError\<close> when \<open>x\<close> is not in the list. \<open>int(a / b)\<close> for \<open>b > 0\<close> truncates
  towards zero. \<open>timedelta(seconds=n)\<close> raises \<open>OverflowError\<close> when the number of days
  leaves the range of plus or minus 999999999; its string is kept as the number of
  seconds.\<close>

definition dict_del :: "string \<Rightarrow> (string \<times> 'v) list \<Rightarrow> exn + (string \<times> 'v) list" where
  "dict_del k d =
     (case map_of d k of None \<Rightarrow> Inl (KeyError k) | Some v \<Rightarrow> Inr (AList.delete k d))"

definition int_truediv :: "int \<Rightarrow> int \<Rightarrow> int" where
  "int_truediv a b = (if 0 \<le> a then a div b else - ((- a) div b))"

definition timedelta :: "int \<Rightarrow> exn + int" where
  "timedelta seconds =
     (let days = seconds div 86400
      in if days < - 999999999 \<or> 999999999 < days then Inl OverflowError else Inr seconds)"

definition endswith :: "string \<Rightarrow> string \<Rightarrow> bool" where
  "endswith s suf = (length suf \<le> length s \<and> drop (length s - length suf) s = suf)"

section \<open>monitor_torrents: deriving the status\<close>

text \<open>Lines 151 to 164: the \<open>if\<close>/\<open>elif\<close> chain, with \<open>downloading\<close> as the initial value.\<close>

definition determine_status :: "torrent_status \<Rightarrow> string" where
  "determine_status s =
     (if is_seeding s then ''completed''
      else if paused s then ''paused''
      else if state s = checking_files then ''checking''
      else if state s = downloading_metadata then ''downloading_metadata''
      else if state s = queued_for_checking then ''queued''
      else if error s \<noteq> [] then ''error''
      else ''downloading'')"

text \<open>The specification's words: a priority list of conditions, the first that matches
  wins, and \<open>downloading\<close> when none does.\<close>

definition spec_priority :: "((torrent_status \<Rightarrow> bool) \<times> string) list" where
  "spec_priority =
     [(is_seeding, ''completed''),
      (paused, ''paused''),
      (\<lambda>s. state s = checking_files, ''checking''),
      (\<lambda>s. state s = downloading_metadata, ''downloading_metadata''),
      (\<lambda>s. state s = queued_for_checking, ''queued''),
      (\<lambda>s. error s \<noteq> [], ''error'')]"

fun first_match :: "(('a \<Rightarrow> bool) \<times> 'b) list \<Rightarrow> 'b \<Rightarrow> 'a \<Rightarrow> 'b" where
  "first_match [] d s = d"
| "first_match ((c, r) # rest) d s = (if c s then r else first_match rest d s)"

section \<open>monitor_torrents: one pass of the loop\<close>

text \<open>Lines 143 to 149. \<open>remaining_bytes / download_rate\<close> is a float in the source; the
  model divides exactly and truncates as \<open>int\<close> does.\<close>

definition calculate_eta :: "torrent_status \<Rightarrow> exn + eta" where
  "calculate_eta s =
     (if download_rate s > 0
      then
        let remaining_bytes = total_wanted s - total_download s;
            eta_seconds = int_truediv remaining_bytes (download_rate s)
        in (case timedelta eta_seconds of Inl e \<Rightarrow> Inl e | Inr d \<Rightarrow> Inr (Duration d))
      else Inr Unknown)"

definition make_stats :: "torrent_status \<Rightarrow> stats" where
  "make_stats s =
     \<lparr>stats_progress = progress s * 100,
      stats_download_rate = download_rate s,
      stats_upload_rate = upload_rate s,
      stats_state = state s,
      stats_total_download = total_download s,
      stats_total_upload = total_upload s,
      stats_num_peers = num_peers s,
      stats_num_seeds = num_seeds s,
      stats_error = (if error s \<noteq> [] then Some (error s) else None),
      stats_eta = None\<rparr>"

text \<open>The two \<open>$set\<close> updates of lines 167 to 189.\<close>

definition set_progress_fields :: "stats \<Rightarrow> string \<Rightarrow> torrent_doc \<Rightarrow> torrent_doc" where
  "set_progress_fields st_d torrent_status d =
     d\<lparr>doc_progress := stats_progress st_d,
       doc_download_rate := stats_download_rate st_d,
       doc_upload_rate := stats_upload_rate st_d,
       doc_status := torrent_status,
       doc_eta := stats_eta st_d,
       doc_num_peers := Some (stats_num_peers st_d),
       doc_num_seeds := Some (stats_num_seeds st_d),
       doc_error := stats_error st_d\<rparr>"

definition set_completed_fields :: "int \<Rightarrow> torrent_doc \<Rightarrow> torrent_doc" where
  "set_completed_fields now d = d\<lparr>doc_status := ''completed'', doc_completed_at := Some now\<rparr>"

text \<open>
  The body of the \<open>for\<close> loop (lines 117 to 197) for one entry of the snapshot
  \<open>list(torrent_handles.items())\<close>. \<open>now\<close> is what \<open>datetime.utcnow()\<close> returns during
  this pass. \<open>download_stats[torrent_id] = stats\<close> stores the dictionary before its
  \<open>eta\<close> key is written; the later write goes through the same object, which the model
  shows as a second \<open>AList.update\<close> at the same key.
\<close>

definition monitor_body ::
  "int \<Rightarrow> string \<Rightarrow> handle \<Rightarrow> server_state \<Rightarrow> (exn + unit) \<times> server_state" where
  "monitor_body now torrent_id handle st =
     (case torrents (ses st) handle of
        None \<Rightarrow>
          let st1 = logger (Warning_invalid_handle torrent_id) st
          in (case dict_del torrent_id (torrent_handles st1) of
                Inl e \<Rightarrow> (Inl e, st1)
              | Inr d \<Rightarrow> (Inr (), st1\<lparr>torrent_handles := d\<rparr>))
      | Some t \<Rightarrow>
          let s = status t;
              stats0 = make_stats s;
              st1 = st\<lparr>download_stats := AList.update torrent_id stats0 (download_stats st)\<rparr>;
              st2 = (if error s \<noteq> [] then logger (Error_torrent torrent_id (error s)) st1
                     else st1)
          in (case calculate_eta s of
                Inl e \<Rightarrow> (Inl e, st2)
              | Inr eta_v \<Rightarrow>
                  let stats1 = stats0\<lparr>stats_eta := Some eta_v\<rparr>;
                      st3 = st2\<lparr>download_stats :=
                                 AList.update torrent_id stats1 (download_stats st2)\<rparr>;
                      torrent_status = determine_status s;
                      st4 = st3\<lparr>db_torrents :=
                                 update_one torrent_id (set_progress_fields stats1 torrent_status)
                                   (db_torrents st3)\<rparr>;
                      st5 = (if is_seeding s \<and> stats_progress stats1 \<ge> 100
                             then logger (Info_completed torrent_id)
                                    (st4\<lparr>db_torrents :=
                                           update_one torrent_id (set_completed_fields now)
                                             (db_torrents st4)\<rparr>)
                             else st4);
                      st6 = (if stats_progress stats1 > 0
                             then logger (Info_progress torrent_id (stats_progress stats1)
                                            (stats_download_rate stats1)
                                            (stats_num_peers stats1) (stats_num_seeds stats1)) st5
                             else st5)
                  in (Inr (), st6)))"

text \<open>The \<open>for\<close> loop: an exception raised by the body leaves the loop at once.\<close>

fun monitor_loop ::
  "int \<Rightarrow> (string \<times> handle) list \<Rightarrow> server_state \<Rightarrow> (exn + unit) \<times> server_state" where
  "monitor_loop now [] st = (Inr (), st)"
| "monitor_loop now ((torrent_id, handle) # items) st =
     (case monitor_body now torrent_id handle st of
        (Inl e, st') \<Rightarrow> (Inl e, st')
      | (Inr u, st') \<Rightarrow> monitor_loop now items st')"

text \<open>Lines 199 to 214: the send loop with its own \<open>try\<close>/\<open>except\<close> (any exception of a
  send puts the connection on the list \<open>disconnected\<close>), then the removal loop.\<close>

fun send_loop ::
  "(string \<times> stats) list \<Rightarrow> ws list \<Rightarrow> ws list \<times> (ws \<Rightarrow> websocket) \<Rightarrow>
   ws list \<times> (ws \<Rightarrow> websocket)" where
  "send_loop msg [] (disconnected, socks) = (disconnected, socks)"
| "send_loop msg (w # rest) (disconnected, socks) =
     (case send_text w msg socks of
        Inl e \<Rightarrow> send_loop msg rest (disconnected @ [w], socks)
      | Inr socks' \<Rightarrow> send_loop msg rest (disconnected, socks'))"

fun remove_loop :: "ws list \<Rightarrow> ws list \<Rightarrow> (exn + unit) \<times> ws list" where
  "remove_loop [] conns = (Inr (), conns)"
| "remove_loop (w # rest) conns =
     (if w \<in> set conns then remove_loop rest (remove1 w conns) else (Inl ValueError, conns))"

definition send_updates :: "server_state \<Rightarrow> (exn + unit) \<times> server_state" where
  "send_updates st =
     (if websocket_connections st \<noteq> []
      then
        let update_data = download_stats st;
            sent = send_loop update_data (websocket_connections st) ([], sockets st);
            st1 = st\<lparr>sockets := snd sent\<rparr>;
            removed = remove_loop (fst sent) (websocket_connections st1)
        in (fst removed, st1\<lparr>websocket_connections := snd removed\<rparr>)
      else (Inr (), st))"

text \<open>One pass of \<open>while True\<close> (lines 115 to 220): the result is the number of seconds
  the task then sleeps, 2 after a pass that ran through and 5 after one that raised.\<close>

definition monitor_tick :: "int \<Rightarrow> server_state \<Rightarrow> nat \<times> server_state" where
  "monitor_tick now st =
     (case monitor_loop now (torrent_handles st) st of
        (Inl e, st1) \<Rightarrow> (5, logger (Error_monitor e) st1)
      | (Inr u, st1) \<Rightarrow>
          (case send_updates st1 of
             (Inl e, st2) \<Rightarrow> (5, logger (Error_monitor e) st2)
           | (Inr u', st2) \<Rightarrow> (2, st2)))"

section \<open>The API routes\<close>

record params =
  p_download_speed_limit :: "int option"
  p_upload_speed_limit :: "int option"
  p_scheduled_start :: "int option"

text \<open>
  \<open>add_torrent_to_session\<close> (lines 239 to 275). \<open>lt_torrent_info\<close> stands for
  libtorrent's parser of a torrent file: \<open>Inl msg\<close> when it raises. A key that the
  \<open>params\<close> dictionary lacks reads as \<open>None\<close> through \<open>params.get\<close>; the test
  \<open>if params.get(k)\<close> also fails for the number 0. Every call sits in the one \<open>try\<close>:
  whichever raises, the function logs the error and returns \<open>False\<close>, and the session
  keeps what the calls before it did.
\<close>

definition add_torrent_to_session ::
  "(nat list \<Rightarrow> string + torrent_info) \<Rightarrow> int \<Rightarrow> nat list \<Rightarrow> string \<Rightarrow> params \<Rightarrow>
   server_state \<Rightarrow> bool \<times> server_state" where
  "add_torrent_to_session lt_torrent_info now torrent_data torrent_id params st =
     (case lt_torrent_info torrent_data of
        Inl msg \<Rightarrow> (False, logger (Error_adding (LibtorrentError msg)) st)
      | Inr info \<Rightarrow>
          (case add_torrent info ''d'' [duplicate_is_error, auto_managed, apply_ip_filter]
                  (ses st) of
             Inl e \<Rightarrow> (False, logger (Error_adding e) st)
           | Inr (handle, s1) \<Rightarrow>
               (case (case p_download_speed_limit params of
                        None \<Rightarrow> Inr s1
                      | Some n \<Rightarrow> if n \<noteq> 0 then set_download_limit n handle s1 else Inr s1) of
                  Inl e \<Rightarrow> (False, logger (Error_adding e) (st\<lparr>ses := s1\<rparr>))
                | Inr s2 \<Rightarrow>
               (case (case p_upload_speed_limit params of
                        None \<Rightarrow> Inr s2
                      | Some n \<Rightarrow> if n \<noteq> 0 then set_upload_limit n handle s2 else Inr s2) of
                  Inl e \<Rightarrow> (False, logger (Error_adding e) (st\<lparr>ses := s2\<rparr>))
                | Inr s3 \<Rightarrow>
               (case force_reannounce handle s3 of
                  Inl e \<Rightarrow> (False, logger (Error_adding e) (st\<lparr>ses := s3\<rparr>))
                | Inr s4 \<Rightarrow>
               (case (case p_scheduled_start params of
                        None \<Rightarrow> Inr s4
                      | Some start \<Rightarrow> if start > now then handle_pause handle s4 else Inr s4) of
                  Inl e \<Rightarrow> (False, logger (Error_adding e) (st\<lparr>ses := s4\<rparr>))
                | Inr s5 \<Rightarrow>
                    let st1 = st\<lparr>ses := s5,
                                 torrent_handles :=
                                   AList.update torrent_id handle (torrent_handles st)\<rparr>
                    in (True, logger (Info_added (name info)) st1)))))))"

record upload_file =
  filename :: string
  content :: "nat list"

text \<open>
  \<open>upload_torrent\<close> (lines 278 to 325). \<open>uuid4\<close> is the identifier that
  \<open>uuid.uuid4()\<close> draws. The route has the parameters \<open>file\<close>, \<open>download_speed_limit\<close>
  and \<open>upload_speed_limit\<close> only, and the \<open>params\<close> it builds has no key
  \<open>scheduled_start\<close>. The \<open>HTTPException\<close> raised inside the \<open>try\<close> is caught by
  \<open>except Exception\<close> like any other.
\<close>

definition upload_torrent ::
  "(nat list \<Rightarrow> string + torrent_info) \<Rightarrow> string \<Rightarrow> int \<Rightarrow> upload_file \<Rightarrow> int option \<Rightarrow>
   int option \<Rightarrow> server_state \<Rightarrow> (exn + torrent_doc) \<times> server_state" where
  "upload_torrent lt_torrent_info uuid4 now file download_speed_limit upload_speed_limit st =
     (if \<not> endswith (filename file) ''.torrent''
      then (Inl (HTTPException 400 (Detail ''File must be a .torrent file'')), st)
      else
        let torrent_data = content file
        in (case lt_torrent_info torrent_data of
              Inl msg \<Rightarrow>
                let e = LibtorrentError msg
                in (Inl (HTTPException 500 (Str e)), logger (Error_uploading e) st)
            | Inr info \<Rightarrow>
                let torrent_id = uuid4;
                    torrent_info =
                      \<lparr>doc_id = torrent_id, doc_name = name info, doc_size = total_size info,
                       doc_progress = 0, doc_download_rate = 0, doc_upload_rate = 0,
                       doc_eta = None, doc_status = ''queued'', doc_created_at = now,
                       doc_completed_at = None, doc_file_path = None,
                       doc_download_speed_limit = download_speed_limit,
                       doc_upload_speed_limit = upload_speed_limit,
                       doc_scheduled_start = None, doc_num_peers = None,
                       doc_num_seeds = None, doc_error = None\<rparr>;
                    st1 = st\<lparr>db_torrents := insert_one torrent_info (db_torrents st)\<rparr>;
                    params = \<lparr>p_download_speed_limit = download_speed_limit,
                              p_upload_speed_limit = upload_speed_limit,
                              p_scheduled_start = None\<rparr>;
                    added = add_torrent_to_session lt_torrent_info now torrent_data
                              torrent_id params st1
                in if \<not> fst added
                   then
                     let e = HTTPException 500 (Detail ''Failed to add torrent'')
                     in (Inl (HTTPException 500 (Str e)), logger (Error_uploading e) (snd added))
                   else (Inr torrent_info, snd added)))"

text \<open>\<open>pause_torrent\<close> and \<open>resume_torrent\<close> (lines 332 to 360). Neither has a
  \<open>try\<close>: what \<open>handle.pause()\<close> or \<open>handle.resume()\<close> raises leaves the route before
  the store is written.\<close>

definition pause_torrent :: "string \<Rightarrow> server_state \<Rightarrow> (exn + string) \<times> server_state" where
  "pause_torrent torrent_id st =
     (case map_of (torrent_handles st) torrent_id of
        None \<Rightarrow> (Inl (HTTPException 404 (Detail ''Torrent not found'')), st)
      | Some handle \<Rightarrow>
          (case handle_pause handle (ses st) of
             Inl e \<Rightarrow> (Inl e, st)
           | Inr s1 \<Rightarrow>
               let st1 = st\<lparr>ses := s1\<rparr>;
                   st2 = st1\<lparr>db_torrents :=
                              update_one torrent_id (\<lambda>d. d\<lparr>doc_status := ''paused''\<rparr>)
                                (db_torrents st1)\<rparr>
               in (Inr ''Torrent paused'', st2)))"

definition resume_torrent :: "string \<Rightarrow> server_state \<Rightarrow> (exn + string) \<times> server_state" where
  "resume_torrent torrent_id st =
     (case map_of (torrent_handles st) torrent_id of
        None \<Rightarrow> (Inl (HTTPException 404 (Detail ''Torrent not found'')), st)
      | Some handle \<Rightarrow>
          (case handle_resume handle (ses st) of
             Inl e \<Rightarrow> (Inl e, st)
           | Inr s1 \<Rightarrow>
               let st1 = st\<lparr>ses := s1\<rparr>;
                   st2 = st1\<lparr>db_torrents :=
                              update_one torrent_id (\<lambda>d. d\<lparr>doc_status := ''downloading''\<rparr>)
                                (db_torrents st1)\<rparr>
               in (Inr ''Torrent resumed'', st2)))"

text \<open>\<open>delete_torrent\<close> (lines 362 to 373). Both \<open>del\<close> statements run under a membership
  test of their key, so neither can raise. \<open>ses.remove_torrent(handle)\<close> is the first
  statement of the \<open>if\<close> block and the route has no \<open>try\<close>: when it raises, the two
  \<open>del\<close> statements and \<open>delete_one\<close> are not reached.\<close>

definition delete_torrent :: "string \<Rightarrow> server_state \<Rightarrow> (exn + string) \<times> server_state" where
  "delete_torrent torrent_id st =
     (case (case map_of (torrent_handles st) torrent_id of
              None \<Rightarrow> Inr st
            | Some handle \<Rightarrow>
                (case remove_torrent handle (ses st) of
                   Inl e \<Rightarrow> Inl e
                 | Inr s1 \<Rightarrow>
                     let st1 = st\<lparr>ses := s1\<rparr>;
                         st2 = st1\<lparr>torrent_handles :=
                                    AList.delete torrent_id (torrent_handles st1)\<rparr>
                     in Inr (if map_of (download_stats st2) torrent_id \<noteq> None
                             then st2\<lparr>download_stats :=
                                        AList.delete torrent_id (download_stats st2)\<rparr>
                             else st2))) of
        Inl e \<Rightarrow> (Inl e, st)
      | Inr st3 \<Rightarrow>
          (Inr ''Torrent deleted'',
           st3\<lparr>db_torrents := delete_one torrent_id (db_torrents st3)\<rparr>))"

text \<open>\<open>get_system_stats\<close> (lines 398 to 427).\<close>

record system_stats =
  total_downloads :: nat
  active_downloads :: nat
  completed_downloads :: nat
  total_downloaded :: int
  total_uploaded :: int
  global_download_rate :: int
  global_upload_rate :: int

definition get_system_stats :: "server_state \<Rightarrow> system_stats" where
  "get_system_stats st =
     \<lparr>total_downloads = count_documents (\<lambda>d. True) (db_torrents st),
      active_downloads =
        count_documents (\<lambda>d. doc_status d \<in> set [''downloading'', ''queued'']) (db_torrents st),
      completed_downloads =
        count_documents (\<lambda>d. doc_status d = ''completed'') (db_torrents st),
      total_downloaded = sum_list (map doc_size (db_torrents st)),
      total_uploaded = 0,
      global_download_rate = sum_list (map (\<lambda>kv. stats_download_rate (snd kv)) (download_stats st)),
      global_upload_rate = sum_list (map (\<lambda>kv. stats_upload_rate (snd kv)) (download_stats st))\<rparr>"

section \<open>Example states\<close>

text \<open>Concrete data on which the theorems below are instantiated: two torrent files,
  three snapshots, a parser that knows the two files, and a server with two transfers
  \<open>a\<close> (handle 0) and \<open>b\<close> (handle 1) and three WebSocket clients, of which client 1
  has gone away.\<close>

definition info_a :: torrent_info where
  "info_a = \<lparr>name = ''a.iso'', total_size = 1000, info_hash = 1\<rparr>"

definition info_b :: torrent_info where
  "info_b = \<lparr>name = ''b.iso'', total_size = 2000, info_hash = 2\<rparr>"

definition parse_ab :: "nat list \<Rightarrow> string + torrent_info" where
  "parse_ab bs =
     (if bs = [1] then Inr info_a else if bs = [2] then Inr info_b
      else Inl ''not a torrent'')"

definition downloading_status :: torrent_status where
  "downloading_status =
     \<lparr>progress = 1 / 2, download_rate = 100, upload_rate = 10, state = downloading,
      total_download = 1000, total_upload = 50, total_wanted = 2000, num_peers = 3,
      num_seeds = 1, error = [], is_seeding = False, paused = False\<rparr>"

definition seeding_status :: torrent_status where
  "seeding_status =
     \<lparr>progress = 1, download_rate = 0, upload_rate = 20, state = seeding,
      total_download = 1000, total_upload = 70, total_wanted = 1000, num_peers = 2,
      num_seeds = 0, error = [], is_seeding = True, paused = False\<rparr>"

text \<open>A transfer of 100 TB that receives one byte per second: its remaining time is
  more days than a \<open>timedelta\<close> can hold.\<close>

definition slow_status :: torrent_status where
  "slow_status =
     \<lparr>progress = 0, download_rate = 1, upload_rate = 0, state = downloading,
      total_download = 0, total_upload = 0, total_wanted = 100000000000000, num_peers = 1,
      num_seeds = 0, error = [], is_seeding = False, paused = False\<rparr>"

definition session_torrent :: "torrent_info \<Rightarrow> torrent_status \<Rightarrow> torrent" where
  "session_torrent info s =
     \<lparr>ti = info, save_path = ''d'',
      flags = [duplicate_is_error, auto_managed, apply_ip_filter],
      download_limit = 0, upload_limit = 0, reannounces = 1, status = s\<rparr>"

definition new_doc :: "string \<Rightarrow> torrent_info \<Rightarrow> int \<Rightarrow> torrent_doc" where
  "new_doc i info created =
     \<lparr>doc_id = i, doc_name = name info, doc_size = total_size info,
      doc_progress = 0, doc_download_rate = 0, doc_upload_rate = 0,
      doc_eta = None, doc_status = ''queued'', doc_created_at = created,
      doc_completed_at = None, doc_file_path = None,
      doc_download_speed_limit = None, doc_upload_speed_limit = None,
      doc_scheduled_start = None, doc_num_peers = None,
      doc_num_seeds = None, doc_error = None\<rparr>"

definition two_transfers ::
  "torrent_status option \<Rightarrow> torrent_status option \<Rightarrow> server_state" where
  "two_transfers sa sb =
     \<lparr>ses = \<lparr>torrents = (\<lambda>h. if h = 0 then map_option (session_torrent info_a) sa
                              else if h = 1 then map_option (session_torrent info_b) sb
                              else None),
             next_handle = 2\<rparr>,
      torrent_handles = [(''a'', 0), (''b'', 1)],
      download_stats = [],
      websocket_connections = [0, 1, 2],
      sockets = (\<lambda>w. \<lparr>ws_open = (w \<noteq> 1), ws_sent = []\<rparr>),
      db_torrents = [new_doc ''a'' info_a 0, new_doc ''b'' info_b 0],
      log = []\<rparr>"

text \<open>A step of the environment: the engine loses the torrent of a handle, which makes
  the handle invalid.\<close>

definition engine_drops :: "handle \<Rightarrow> server_state \<Rightarrow> server_state" where
  "engine_drops h st = st\<lparr>ses := (ses st)\<lparr>torrents := (torrents (ses st))(h := None)\<rparr>\<rparr>"

definition empty_server :: server_state where
  "empty_server =
     \<lparr>ses = \<lparr>torrents = (\<lambda>h. None), next_handle = 0\<rparr>,
      torrent_handles = [],
      download_stats = [],
      websocket_connections = [],
      sockets = (\<lambda>w. \<lparr>ws_open = True, ws_sent = []\<rparr>),
      db_torrents = [],
      log = []\<rparr>"

section \<open>Theorems\<close>

lemmas example_defs =
  info_a_def info_b_def parse_ab_def downloading_status_def seeding_status_def
  slow_status_def session_torrent_def new_doc_def two_transfers_def empty_server_def
  engine_drops_def

lemmas monitor_defs =
  monitor_tick_def monitor_body_def calculate_eta_def make_stats_def determine_status_def
  set_progress_fields_def set_completed_fields_def logger_def send_updates_def send_text_def
  int_truediv_def timedelta_def dict_del_def Let_def


lemmas upload_defs =
  upload_torrent_def add_torrent_to_session_def add_torrent_def has_info_hash_def
  endswith_def insert_one_def logger_def Let_def force_reannounce_def on_torrent_def
  handle_pause_def set_download_limit_def set_upload_limit_def initial_status_def
  invalid_handle_def

subsection \<open>Status derivation\<close>

text \<open>
  C5. For every engine snapshot the status computed by the \<open>if\<close>/\<open>elif\<close> chain of
  \<open>monitor_torrents\<close> is the first match of the specification's priority list (fully
  available, paused, checking files, downloading metadata, queued for checking, non-empty
  error string), and \<open>downloading\<close> when nothing matches; a snapshot that is fully
  available is \<open>completed\<close> whatever its error string and its other fields are.
\<close>

theorem status_priority:
  "determine_status s = first_match spec_priority ''downloading'' s
   \<and> determine_status (s\<lparr>is_seeding := True\<rparr>) = ''completed''"
  by (simp add: determine_status_def spec_priority_def)

theorem status_priority_witness:
  "determine_status
     (seeding_status\<lparr>error := ''disk full'', paused := True, state := checking_files\<rparr>)
   = ''completed''"
  using status_priority [of "seeding_status\<lparr>error := ''disk full'', paused := True,
                              state := checking_files, is_seeding := False\<rparr>"]
  by (simp add: seeding_status_def)

subsection \<open>Facts about the store and the loop\<close>

lemma find_one_None_iff: "find_one i ds = None \<longleftrightarrow> i \<notin> doc_id ` set ds"
  by (induction ds) auto

lemma delete_one_distinct:
  "distinct (map doc_id ds) \<Longrightarrow> delete_one i ds = filter (\<lambda>d. doc_id d \<noteq> i) ds"
proof (induction ds)
  case Nil
  then show ?case by simp
next
  case (Cons d ds)
  show ?case
  proof (cases "doc_id d = i")
    case True
    with Cons.prems have "\<forall>x\<in>set ds. doc_id x \<noteq> i" by (auto simp: image_iff)
    then have "filter (\<lambda>d. doc_id d \<noteq> i) ds = ds" by (simp add: filter_id_conv)
    with True show ?thesis by simp
  next
    case False
    with Cons show ?thesis by simp
  qed
qed

lemma find_one_update_one:
  assumes "\<And>d. doc_id (f d) = doc_id d"
  shows "find_one i (update_one j f ds)
         = (if i = j then map_option f (find_one i ds) else find_one i ds)"
  using assms by (induction ds) auto

lemma doc_id_set_progress_fields [simp]: "doc_id (set_progress_fields s ts d) = doc_id d"
  by (simp add: set_progress_fields_def)

lemma doc_id_set_completed_fields [simp]: "doc_id (set_completed_fields now d) = doc_id d"
  by (simp add: set_completed_fields_def)

lemma monitor_body_ses: "ses (snd (monitor_body now k h st)) = ses st"
  by (simp add: monitor_body_def Let_def logger_def dict_del_def split: option.splits sum.splits)

lemma monitor_body_frame:
  "k \<noteq> i \<Longrightarrow>
   find_one i (db_torrents (snd (monitor_body now k h st))) = find_one i (db_torrents st)"
  by (simp add: monitor_body_def Let_def logger_def find_one_update_one
           split: option.splits sum.splits)

text \<open>What one pass of the body writes into the record of its transfer.\<close>

lemma monitor_body_record:
  assumes "torrents (ses st) h = Some t"
      and "fst (monitor_body now i h st) = Inr ()"
      and "find_one i (db_torrents st) = Some d"
  shows "\<exists>d'. find_one i (db_torrents (snd (monitor_body now i h st))) = Some d'
           \<and> doc_status d' = determine_status (status t)
           \<and> doc_completed_at d'
               = (if is_seeding (status t) \<and> 100 \<le> progress (status t) * 100
                  then Some now else doc_completed_at d)"
  using assms
  by (auto simp: monitor_body_def Let_def logger_def find_one_update_one make_stats_def
        set_progress_fields_def set_completed_fields_def determine_status_def
        split: sum.splits)

lemma monitor_loop_ses: "ses (snd (monitor_loop now items st)) = ses st"
proof (induction items arbitrary: st)
  case Nil
  then show ?case by simp
next
  case (Cons kv items)
  obtain k h where kv: "kv = (k, h)" by (cases kv)
  obtain r st1 where b: "monitor_body now k h st = (r, st1)" by (cases "monitor_body now k h st")
  have "ses st1 = ses st" using monitor_body_ses [of now k h st] b by simp
  with Cons.IH [of st1] kv b show ?case by (cases r) simp_all
qed

lemma monitor_loop_frame:
  "i \<notin> fst ` set items \<Longrightarrow>
   find_one i (db_torrents (snd (monitor_loop now items st))) = find_one i (db_torrents st)"
proof (induction items arbitrary: st)
  case Nil
  then show ?case by simp
next
  case (Cons kv items)
  obtain k h where kv: "kv = (k, h)" by (cases kv)
  obtain r st1 where b: "monitor_body now k h st = (r, st1)" by (cases "monitor_body now k h st")
  from Cons.prems kv have ne: "k \<noteq> i" and rest: "i \<notin> fst ` set items" by auto
  have f1: "find_one i (db_torrents st1) = find_one i (db_torrents st)"
    using monitor_body_frame [OF ne, of now h st] b by simp
  with Cons.IH [OF rest, of st1] kv b show ?case by (cases r) simp_all
qed

text \<open>The same for a whole run of the loop over a snapshot with distinct keys: the
  entries before and after the transfer leave its record alone.\<close>

lemma monitor_loop_record:
  assumes "distinct (map fst items)"
      and "(i, h) \<in> set items"
      and "torrents (ses st) h = Some t"
      and "fst (monitor_loop now items st) = Inr ()"
      and "find_one i (db_torrents st) = Some d"
  shows "\<exists>d'. find_one i (db_torrents (snd (monitor_loop now items st))) = Some d'
           \<and> doc_status d' = determine_status (status t)
           \<and> doc_completed_at d'
               = (if is_seeding (status t) \<and> 100 \<le> progress (status t) * 100
                  then Some now else doc_completed_at d)"
  using assms
proof (induction items arbitrary: st)
  case Nil
  then show ?case by simp
next
  case (Cons kv items)
  obtain k h' where kv: "kv = (k, h')" by (cases kv)
  obtain r st1 where b: "monitor_body now k h' st = (r, st1)"
    by (cases "monitor_body now k h' st")
  from Cons.prems(4) kv b have r: "r = Inr ()" by (cases r) simp_all
  with kv b have step: "monitor_loop now (kv # items) st = monitor_loop now items st1" by simp
  have ses1: "ses st1 = ses st" using monitor_body_ses [of now k h' st] b by simp
  show ?case
  proof (cases "(i, h) = (k, h')")
    case True
    with Cons.prems(1) kv have notin: "i \<notin> fst ` set items" by auto
    from True b r have "fst (monitor_body now i h st) = Inr ()" by simp
    from monitor_body_record [OF Cons.prems(3) this Cons.prems(5)] True b
    obtain d' where d': "find_one i (db_torrents st1) = Some d'"
        "doc_status d' = determine_status (status t)"
        "doc_completed_at d'
           = (if is_seeding (status t) \<and> 100 \<le> progress (status t) * 100
              then Some now else doc_completed_at d)"
      by auto
    from monitor_loop_frame [OF notin, of now st1] d' step show ?thesis by simp
  next
    case False
    with Cons.prems(2) kv have mem: "(i, h) \<in> set items" by auto
    with Cons.prems(1) kv have ne: "k \<noteq> i" by (auto simp: image_iff)
    have f1: "find_one i (db_torrents st1) = Some d"
      using monitor_body_frame [OF ne, of now h' st] b Cons.prems(5) by simp
    from Cons.prems(1) have dist: "distinct (map fst items)" by simp
    from Cons.prems(3) ses1 have t1: "torrents (ses st1) h = Some t" by simp
    from Cons.prems(4) step have ok: "fst (monitor_loop now items st1) = Inr ()" by simp
    from Cons.IH [OF dist mem t1 ok f1] step show ?thesis by simp
  qed
qed

lemma monitor_loop_append:
  "monitor_loop now (xs @ ys) st
   = (case monitor_loop now xs st of
        (Inl e, st') \<Rightarrow> (Inl e, st')
      | (Inr u, st') \<Rightarrow> monitor_loop now ys st')"
proof (induction xs arbitrary: st)
  case Nil
  then show ?case by simp
next
  case (Cons kv xs)
  obtain k h where kv: "kv = (k, h)" by (cases kv)
  obtain r st1 where b: "monitor_body now k h st = (r, st1)" by (cases "monitor_body now k h st")
  with kv Cons.IH [of st1] show ?case by (cases r) simp_all
qed

lemma monitor_body_stats_keys:
  "fst ` set (download_stats (snd (monitor_body now k h st)))
   \<subseteq> insert k (fst ` set (download_stats st))"
  by (auto simp: monitor_body_def Let_def logger_def dict_del_def AList.dom_update
           split: option.splits sum.splits)

lemma monitor_loop_stats_keys:
  "fst ` set (download_stats (snd (monitor_loop now items st)))
   \<subseteq> fst ` set items \<union> fst ` set (download_stats st)"
proof (induction items arbitrary: st)
  case Nil
  then show ?case by simp
next
  case (Cons kv items)
  obtain k h where kv: "kv = (k, h)" by (cases kv)
  obtain r st1 where b: "monitor_body now k h st = (r, st1)" by (cases "monitor_body now k h st")
  have k1: "fst ` set (download_stats st1) \<subseteq> insert k (fst ` set (download_stats st))"
    using monitor_body_stats_keys [of now k h st] b by simp
  show ?case
  proof (cases r)
    case (Inl e)
    with kv b k1 show ?thesis by auto
  next
    case (Inr u)
    with kv b have "monitor_loop now (kv # items) st = monitor_loop now items st1" by simp
    with Cons.IH [of st1] k1 kv show ?thesis by auto
  qed
qed

lemma send_updates_db: "db_torrents (snd (send_updates st)) = db_torrents st"
  by (simp add: send_updates_def Let_def)

lemma send_updates_stats: "download_stats (snd (send_updates st)) = download_stats st"
  by (simp add: send_updates_def Let_def)

lemma monitor_tick_db:
  "db_torrents (snd (monitor_tick now st))
   = db_torrents (snd (monitor_loop now (torrent_handles st) st))"
proof -
  obtain r st1 where l: "monitor_loop now (torrent_handles st) st = (r, st1)"
    by (cases "monitor_loop now (torrent_handles st) st")
  obtain r2 st2 where s: "send_updates st1 = (r2, st2)" by (cases "send_updates st1")
  have "db_torrents st2 = db_torrents st1" using send_updates_db [of st1] s by simp
  with l s show ?thesis
    by (cases r; cases r2) (simp_all add: monitor_tick_def logger_def)
qed

lemma monitor_tick_stats:
  "download_stats (snd (monitor_tick now st))
   = download_stats (snd (monitor_loop now (torrent_handles st) st))"
proof -
  obtain r st1 where l: "monitor_loop now (torrent_handles st) st = (r, st1)"
    by (cases "monitor_loop now (torrent_handles st) st")
  obtain r2 st2 where s: "send_updates st1 = (r2, st2)" by (cases "send_updates st1")
  have "download_stats st2 = download_stats st1" using send_updates_stats [of st1] s by simp
  with l s show ?thesis
    by (cases r; cases r2) (simp_all add: monitor_tick_def logger_def)
qed

subsection \<open>The supervisor loop\<close>

text \<open>
  C1. \<open>completed_at\<close> is to be set once, on the tick of the transition into
  \<open>completed\<close>, and to read the same on every later tick. The run that fails it is the
  specification's own scenario: transfer \<open>a\<close> is fully available in three consecutive
  ticks, at the times 10, 12 and 14; its record starts as \<open>queued\<close>, so the tick at 10
  is the transition. The block under \<open>Mark as completed if finished\<close> runs on each of
  the three ticks and stores that tick's time: the reads after the transition are 10,
  then 12, then 14.
\<close>

theorem completed_at_overwritten:
  "map_option doc_status
     (find_one ''a'' (db_torrents (two_transfers (Some seeding_status) (Some downloading_status))))
     = Some ''queued''
   \<and> map_option doc_completed_at (find_one ''a'' (db_torrents (snd (monitor_tick 10
        (two_transfers (Some seeding_status) (Some downloading_status))))))
     = Some (Some 10)
   \<and> map_option doc_completed_at (find_one ''a'' (db_torrents (snd (monitor_tick 12
        (snd (monitor_tick 10
          (two_transfers (Some seeding_status) (Some downloading_status))))))))
     = Some (Some 12)
   \<and> map_option doc_completed_at (find_one ''a'' (db_torrents (snd (monitor_tick 14
        (snd (monitor_tick 12 (snd (monitor_tick 10
          (two_transfers (Some seeding_status) (Some downloading_status))))))))))
     = Some (Some 14)
   \<and> map_option doc_completed_at (find_one ''a'' (db_torrents (snd (monitor_tick 14
        (snd (monitor_tick 12 (snd (monitor_tick 10
          (two_transfers (Some seeding_status) (Some downloading_status))))))))))
     \<noteq> map_option doc_completed_at (find_one ''a'' (db_torrents (snd (monitor_tick 10
        (two_transfers (Some seeding_status) (Some downloading_status))))))"
  by (simp add: example_defs monitor_defs)

text \<open>The same holds of every state, not only of this run: a tick that runs through
  stores its own time in the record of each registered transfer whose snapshot is
  seeding at 100 percent, whatever the record held before.\<close>

lemma completed_at_on_every_seeding_tick:
  assumes "distinct (map fst (torrent_handles st))"
      and "(torrent_id, handle) \<in> set (torrent_handles st)"
      and "torrents (ses st) handle = Some t"
      and "find_one torrent_id (db_torrents st) = Some d"
      and "fst (monitor_loop now (torrent_handles st) st) = Inr ()"
  shows "map_option doc_completed_at
           (find_one torrent_id (db_torrents (snd (monitor_tick now st))))
         = Some (if is_seeding (status t) \<and> 100 \<le> progress (status t) * 100
                 then Some now else doc_completed_at d)"
proof -
  from monitor_loop_record [OF assms(1) assms(2) assms(3) assms(5) assms(4)]
  obtain d' where
    "find_one torrent_id (db_torrents (snd (monitor_loop now (torrent_handles st) st)))
       = Some d'"
    "doc_completed_at d'
       = (if is_seeding (status t) \<and> 100 \<le> progress (status t) * 100
          then Some now else doc_completed_at d)"
    by blast
  then show ?thesis by (simp add: monitor_tick_db)
qed

text \<open>
  Two transfers: the pass over \<open>a\<close> raises (its remaining time overflows
  \<open>timedelta\<close>), the pass over \<open>b\<close> alone would run through. In the tick, \<open>b\<close> is not
  processed: its record is still the one the upload wrote, it has no entry in
  \<open>download_stats\<close>, and nothing is sent to the open client 0.
\<close>

theorem failure_aborts_tick_counterexample:
  "fst (monitor_body 10 ''a'' 0 (two_transfers (Some slow_status) (Some downloading_status)))
     = Inl OverflowError
   \<and> fst (monitor_body 10 ''b'' 1 (two_transfers (Some slow_status) (Some downloading_status)))
     = Inr ()
   \<and> find_one ''b'' (db_torrents (snd (monitor_body 10 ''b'' 1
        (two_transfers (Some slow_status) (Some downloading_status)))))
     \<noteq> Some (new_doc ''b'' info_b 0)
   \<and> find_one ''b'' (db_torrents (snd (monitor_tick 10
        (two_transfers (Some slow_status) (Some downloading_status)))))
     = Some (new_doc ''b'' info_b 0)
   \<and> map_of (download_stats (snd (monitor_tick 10
        (two_transfers (Some slow_status) (Some downloading_status))))) ''b'' = None
   \<and> ws_sent (sockets (snd (monitor_tick 10
        (two_transfers (Some slow_status) (Some downloading_status)))) 0) = []"
  by (simp add: example_defs monitor_defs)

text \<open>
  C2, as the code has it. The \<open>try\<close> encloses the whole \<open>for\<close> loop: when the pass over
  one transfer raises, the tick ends in the state that pass left behind, with the
  failure logged once; the entries after it in the snapshot are not processed, nothing
  is broadcast, and the task sleeps 5 seconds before the next tick.
\<close>

theorem failure_aborts_tick:
  assumes "torrent_handles st = before @ (torrent_id, handle) # rest"
      and "monitor_loop now before st = (Inr (), st1)"
      and "monitor_body now torrent_id handle st1 = (Inl e, st2)"
  shows "monitor_tick now st = (5, logger (Error_monitor e) st2)"
  using assms by (simp add: monitor_tick_def monitor_loop_append)

theorem failure_aborts_tick_witness:
  "torrent_handles (two_transfers (Some slow_status) (Some downloading_status))
     = [] @ (''a'', 0) # [(''b'', 1)]
   \<and> fst (monitor_body 10 ''a'' 0 (two_transfers (Some slow_status) (Some downloading_status)))
     = Inl OverflowError
   \<and> monitor_tick 10 (two_transfers (Some slow_status) (Some downloading_status))
     = (5, logger (Error_monitor OverflowError)
             (snd (monitor_body 10 ''a'' 0
                (two_transfers (Some slow_status) (Some downloading_status)))))"
proof -
  let ?st = "two_transfers (Some slow_status) (Some downloading_status)"
  have h1: "torrent_handles ?st = [] @ (''a'', 0) # [(''b'', 1)]"
    by (simp add: two_transfers_def)
  have h2: "monitor_loop 10 [] ?st = (Inr (), ?st)" by simp
  have f: "fst (monitor_body 10 ''a'' 0 ?st) = Inl OverflowError"
    by (simp add: example_defs monitor_defs)
  then have h3: "monitor_body 10 ''a'' 0 ?st = (Inl OverflowError, snd (monitor_body 10 ''a'' 0 ?st))"
    by (simp add: prod_eq_iff)
  from failure_aborts_tick [OF h1 h2 h3] h1 f show ?thesis by simp
qed

text \<open>
  C4. The failing run: both transfers are polled at time 10; then the engine drops the
  torrent of \<open>a\<close>, so its handle is invalid in the ticks at 12 and 14. The tick at 12
  removes \<open>a\<close> from \<open>torrent_handles\<close>, leaves its record as the tick at 10 wrote it
  and updates \<open>b\<close>; but the entry of \<open>a\<close> stays in \<open>download_stats\<close>, so the
  updates that client 0 receives at 12 and at 14 still list \<open>a\<close>.
\<close>

theorem pruned_transfer_still_broadcast:
  "map fst (torrent_handles (snd (monitor_tick 12
      (engine_drops 0
         (snd (monitor_tick 10 (two_transfers (Some downloading_status) (Some seeding_status))))))))
     = [''b'']
   \<and> find_one ''a'' (db_torrents (snd (monitor_tick 12
      (engine_drops 0
         (snd (monitor_tick 10 (two_transfers (Some downloading_status) (Some seeding_status))))))))
     = find_one ''a'' (db_torrents
         (snd (monitor_tick 10 (two_transfers (Some downloading_status) (Some seeding_status)))))
   \<and> map_option doc_completed_at (find_one ''b'' (db_torrents (snd (monitor_tick 12
      (engine_drops 0
         (snd (monitor_tick 10 (two_transfers (Some downloading_status) (Some seeding_status)))))))))
     = Some (Some 12)
   \<and> map fst (download_stats (snd (monitor_tick 12
      (engine_drops 0
         (snd (monitor_tick 10 (two_transfers (Some downloading_status) (Some seeding_status))))))))
     = [''a'', ''b'']
   \<and> map (map fst) (ws_sent (sockets (snd (monitor_tick 14 (snd (monitor_tick 12
      (engine_drops 0
         (snd (monitor_tick 10 (two_transfers (Some downloading_status) (Some seeding_status)))))))))
        0))
     = [[''a'', ''b''], [''a'', ''b''], [''a'', ''b'']]
   \<and> global_download_rate (get_system_stats (snd (monitor_tick 12
      (engine_drops 0
         (snd (monitor_tick 10 (two_transfers (Some downloading_status) (Some seeding_status))))))))
     = 100"
  by (simp add: example_defs monitor_defs get_system_stats_def)

subsection \<open>The broadcast\<close>

lemma send_loop_eq:
  "send_loop msg conns (dis, socks)
   = (dis @ filter (\<lambda>w. \<not> ws_open (socks w)) conns,
      (\<lambda>w. if ws_open (socks w)
            then (socks w)\<lparr>ws_sent := ws_sent (socks w) @ replicate (count_list conns w) msg\<rparr>
            else socks w))"
proof (induction conns arbitrary: dis socks)
  case Nil
  then show ?case by (simp add: fun_eq_iff)
next
  case (Cons c conns)
  show ?case
  proof (cases "ws_open (socks c)")
    case True
    define socks' where
      "socks' = socks(c := (socks c)\<lparr>ws_sent := ws_sent (socks c) @ [msg]\<rparr>)"
    have op: "ws_open (socks' w) = ws_open (socks w)" for w
      using True by (simp add: socks'_def)
    have step: "send_loop msg (c # conns) (dis, socks) = send_loop msg conns (dis, socks')"
      using True by (simp add: send_text_def socks'_def)
    have flt: "filter (\<lambda>w. \<not> ws_open (socks w)) (c # conns)
               = filter (\<lambda>w. \<not> ws_open (socks' w)) conns"
      using True by (simp add: op)
    have fn: "(\<lambda>w. if ws_open (socks' w)
                  then (socks' w)\<lparr>ws_sent := ws_sent (socks' w) @ replicate (count_list conns w) msg\<rparr>
                  else socks' w)
              = (\<lambda>w. if ws_open (socks w)
                  then (socks w)\<lparr>ws_sent := ws_sent (socks w)
                         @ replicate (count_list (c # conns) w) msg\<rparr>
                  else socks w)"
    proof
      fix w
      show "(if ws_open (socks' w)
             then (socks' w)\<lparr>ws_sent := ws_sent (socks' w) @ replicate (count_list conns w) msg\<rparr>
             else socks' w)
            = (if ws_open (socks w)
               then (socks w)\<lparr>ws_sent := ws_sent (socks w)
                      @ replicate (count_list (c # conns) w) msg\<rparr>
               else socks w)"
        using True by (cases "w = c") (simp_all add: socks'_def)
    qed
    show ?thesis
      unfolding step Cons.IH [of dis socks'] flt fn ..
  next
    case False
    then show ?thesis
      by (auto simp: send_text_def Cons.IH fun_eq_iff)
  qed
qed

lemma remove_loop_filter:
  "\<forall>y\<in>set ys. \<not> Q y \<Longrightarrow>
   remove_loop (filter Q xs) (ys @ xs) = (Inr (), ys @ filter (\<lambda>w. \<not> Q w) xs)"
proof (induction xs arbitrary: ys)
  case Nil
  then show ?case by simp
next
  case (Cons x xs)
  show ?case
  proof (cases "Q x")
    case True
    with Cons.prems have "x \<notin> set ys" by auto
    then have "remove1 x (ys @ x # xs) = ys @ xs" by (simp add: remove1_append)
    with True Cons.IH [OF Cons.prems] show ?thesis by simp
  next
    case False
    with Cons.prems have "\<forall>y\<in>set (ys @ [x]). \<not> Q y" by auto
    from Cons.IH [OF this] False show ?thesis by simp
  qed
qed

text \<open>
  C9. Publishing never raises; every subscriber whose connection takes the send has
  the same snapshot (the current \<open>download_stats\<close>) appended to what it received, once
  for each time it is registered, whatever happens to the other subscribers; and the
  subscribers whose send failed are exactly those missing from the list afterwards, so
  the next publish does not try them.
\<close>

theorem publish_best_effort:
  "fst (send_updates st) = Inr ()
   \<and> websocket_connections (snd (send_updates st))
       = filter (\<lambda>w. ws_open (sockets st w)) (websocket_connections st)
   \<and> sockets (snd (send_updates st))
       = (\<lambda>w. if ws_open (sockets st w)
              then (sockets st w)\<lparr>ws_sent := ws_sent (sockets st w)
                     @ replicate (count_list (websocket_connections st) w) (download_stats st)\<rparr>
              else sockets st w)"
proof (cases "websocket_connections st = []")
  case True
  then show ?thesis by (simp add: send_updates_def fun_eq_iff)
next
  case False
  have rl: "remove_loop (filter (\<lambda>w. \<not> ws_open (sockets st w)) (websocket_connections st))
              (websocket_connections st)
            = (Inr (), filter (\<lambda>w. ws_open (sockets st w)) (websocket_connections st))"
    using remove_loop_filter [of "[]" "\<lambda>w. \<not> ws_open (sockets st w)" "websocket_connections st"]
    by simp
  from False show ?thesis
    by (simp add: send_updates_def Let_def send_loop_eq rl)
qed

theorem publish_best_effort_witness:
  "fst (send_updates (snd (monitor_loop 10 [(''a'', 0), (''b'', 1)]
          (two_transfers (Some seeding_status) (Some downloading_status))))) = Inr ()
   \<and> websocket_connections (snd (send_updates (snd (monitor_loop 10 [(''a'', 0), (''b'', 1)]
          (two_transfers (Some seeding_status) (Some downloading_status)))))) = [0, 2]
   \<and> map (\<lambda>w. map (map fst) (ws_sent (sockets (snd (send_updates (snd (monitor_loop 10
          [(''a'', 0), (''b'', 1)]
          (two_transfers (Some seeding_status) (Some downloading_status)))))) w))) [0, 1, 2]
     = [[[''a'', ''b'']], [], [[''a'', ''b'']]]"
  using publish_best_effort [of "snd (monitor_loop 10 [(''a'', 0), (''b'', 1)]
          (two_transfers (Some seeding_status) (Some downloading_status)))"]
  by (simp add: example_defs monitor_defs)

subsection \<open>The API routes\<close>

text \<open>
  C8. Pausing an identifier that is not a key of \<open>torrent_handles\<close> raises the HTTP
  error 404 and leaves the whole state, the store included, as it was.
\<close>

theorem pause_not_found:
  assumes "torrent_id \<notin> fst ` set (torrent_handles st)"
  shows "pause_torrent torrent_id st
         = (Inl (HTTPException 404 (Detail ''Torrent not found'')), st)"
proof -
  from assms have "map_of (torrent_handles st) torrent_id = None"
    by (simp add: map_of_eq_None_iff)
  then show ?thesis by (simp add: pause_torrent_def)
qed

theorem pause_not_found_witness:
  "''c'' \<notin> fst ` set (torrent_handles
              (two_transfers (Some downloading_status) (Some downloading_status)))
   \<and> fst (pause_torrent ''c''
            (two_transfers (Some downloading_status) (Some downloading_status)))
     = Inl (HTTPException 404 (Detail ''Torrent not found''))
   \<and> db_torrents (snd (pause_torrent ''c''
            (two_transfers (Some downloading_status) (Some downloading_status))))
     = [new_doc ''a'' info_a 0, new_doc ''b'' info_b 0]"
proof -
  have h: "''c'' \<notin> fst ` set (torrent_handles
              (two_transfers (Some downloading_status) (Some downloading_status)))"
    by (simp add: two_transfers_def)
  from pause_not_found [OF h] h show ?thesis by (simp add: two_transfers_def)
qed

text \<open>
  C7. Delete is to remove the durable record for every identifier, registered or not.
  The run that fails it: \<open>a\<close> and \<open>b\<close> are registered and the engine has lost the
  torrent of \<open>b\<close>, so the handle of \<open>b\<close> is invalid and no tick has pruned it yet.
  Deleting \<open>b\<close> then raises out of \<open>ses.remove_torrent\<close>, which the route does not
  catch: \<open>delete_one\<close> is not reached and the record of \<open>b\<close> stays in the store, with
  its registry entry. The deletion of an orphan, the record \<open>c\<close> that a create left
  behind when the engine refused it, does what the claim says.
\<close>

theorem delete_on_invalid_handle_keeps_record:
  "map_of (torrent_handles
      (engine_drops 1 (two_transfers (Some downloading_status) (Some downloading_status))))
      ''b'' = Some 1
   \<and> is_valid (ses
      (engine_drops 1 (two_transfers (Some downloading_status) (Some downloading_status)))) 1
     = False
   \<and> fst (delete_torrent ''b''
      (engine_drops 1 (two_transfers (Some downloading_status) (Some downloading_status))))
     = Inl (LibtorrentError ''invalid torrent handle used'')
   \<and> db_torrents (snd (delete_torrent ''b''
      (engine_drops 1 (two_transfers (Some downloading_status) (Some downloading_status)))))
     = [new_doc ''a'' info_a 0, new_doc ''b'' info_b 0]
   \<and> map fst (torrent_handles (snd (delete_torrent ''b''
      (engine_drops 1 (two_transfers (Some downloading_status) (Some downloading_status))))))
     = [''a'', ''b'']
   \<and> fst (upload_torrent parse_ab ''c'' 100 \<lparr>filename = ''a.torrent'', content = [1]\<rparr> None None
          (two_transfers (Some downloading_status) (Some downloading_status)))
     = Inl (HTTPException 500 (Str (HTTPException 500 (Detail ''Failed to add torrent''))))
   \<and> map doc_id (db_torrents (snd (upload_torrent parse_ab ''c'' 100
          \<lparr>filename = ''a.torrent'', content = [1]\<rparr> None None
          (two_transfers (Some downloading_status) (Some downloading_status)))))
     = [''a'', ''b'', ''c'']
   \<and> fst (delete_torrent ''c'' (snd (upload_torrent parse_ab ''c'' 100
          \<lparr>filename = ''a.torrent'', content = [1]\<rparr> None None
          (two_transfers (Some downloading_status) (Some downloading_status)))))
     = Inr ''Torrent deleted''
   \<and> db_torrents (snd (delete_torrent ''c'' (snd (upload_torrent parse_ab ''c'' 100
          \<lparr>filename = ''a.torrent'', content = [1]\<rparr> None None
          (two_transfers (Some downloading_status) (Some downloading_status))))))
     = [new_doc ''a'' info_a 0, new_doc ''b'' info_b 0]"
  by (simp add: example_defs upload_defs delete_torrent_def remove_torrent_def is_valid_def
        upt_rec)

text \<open>Away from that case the route does remove the record. With identifiers unique in
  the store, and the handle valid when the identifier is registered, \<open>delete_torrent\<close>
  returns normally and leaves no record with the identifier, the other records being
  kept; for an identifier that is not registered the registry and the session stay as
  they are, and for a registered one its torrent leaves the session and its entry leaves
  \<open>torrent_handles\<close>.\<close>

lemma delete_removes_record:
  assumes "distinct (map doc_id (db_torrents st))"
      and "\<And>handle. map_of (torrent_handles st) torrent_id = Some handle
             \<Longrightarrow> is_valid (ses st) handle"
  shows "fst (delete_torrent torrent_id st) = Inr ''Torrent deleted''
       \<and> find_one torrent_id (db_torrents (snd (delete_torrent torrent_id st))) = None
       \<and> db_torrents (snd (delete_torrent torrent_id st))
           = filter (\<lambda>d. doc_id d \<noteq> torrent_id) (db_torrents st)
       \<and> (case map_of (torrent_handles st) torrent_id of
             None \<Rightarrow> torrent_handles (snd (delete_torrent torrent_id st)) = torrent_handles st
                    \<and> ses (snd (delete_torrent torrent_id st)) = ses st
           | Some handle \<Rightarrow>
               torrents (ses (snd (delete_torrent torrent_id st))) handle = None
               \<and> map_of (torrent_handles (snd (delete_torrent torrent_id st))) torrent_id = None)"
proof -
  have valid: "map_of (torrent_handles st) torrent_id = Some handle
               \<Longrightarrow> \<exists>t. torrents (ses st) handle = Some t" for handle
    using assms(2) [of handle] by (auto simp: is_valid_def)
  have db: "db_torrents (snd (delete_torrent torrent_id st))
            = delete_one torrent_id (db_torrents st)"
    using valid
    by (auto simp: delete_torrent_def Let_def remove_torrent_def split: option.splits)
  have flt: "delete_one torrent_id (db_torrents st)
             = filter (\<lambda>d. doc_id d \<noteq> torrent_id) (db_torrents st)"
    using assms(1) by (rule delete_one_distinct)
  have gone: "find_one torrent_id (filter (\<lambda>d. doc_id d \<noteq> torrent_id) (db_torrents st)) = None"
    by (auto simp: find_one_None_iff)
  have reg: "(case map_of (torrent_handles st) torrent_id of
             None \<Rightarrow> torrent_handles (snd (delete_torrent torrent_id st)) = torrent_handles st
                    \<and> ses (snd (delete_torrent torrent_id st)) = ses st
           | Some handle \<Rightarrow>
               torrents (ses (snd (delete_torrent torrent_id st))) handle = None
               \<and> map_of (torrent_handles (snd (delete_torrent torrent_id st))) torrent_id = None)"
    using valid
    by (auto simp: delete_torrent_def Let_def remove_torrent_def AList.delete_conv'
             split: option.splits)
  have res: "fst (delete_torrent torrent_id st) = Inr ''Torrent deleted''"
    using valid
    by (auto simp: delete_torrent_def Let_def remove_torrent_def split: option.splits)
  from res db flt gone reg show ?thesis by simp
qed

text \<open>
  C10. Deleting a registered transfer is to remove its entry from \<open>torrent_handles\<close>
  and from \<open>download_stats\<close>, so that its rates leave the global sums and the
  broadcasts. The run that fails it: both transfers are polled at time 10, then the
  engine loses the torrent of \<open>a\<close>, and \<open>a\<close> is deleted before the next tick. The
  route raises out of \<open>ses.remove_torrent\<close> before its two \<open>del\<close> statements: both
  maps keep the entry of \<open>a\<close>, and the global rates are still 100 and 30 with the
  rates of \<open>a\<close> in them. With the handle of \<open>a\<close> valid the same deletion empties
  both maps of \<open>a\<close> and leaves the rates of \<open>b\<close> alone, 0 and 20.
\<close>

theorem delete_on_invalid_handle_keeps_maps:
  "map_of (torrent_handles (engine_drops 0 (snd (monitor_tick 10
       (two_transfers (Some downloading_status) (Some seeding_status)))))) ''a'' = Some 0
   \<and> fst (delete_torrent ''a'' (engine_drops 0 (snd (monitor_tick 10
       (two_transfers (Some downloading_status) (Some seeding_status))))))
     = Inl (LibtorrentError ''invalid torrent handle used'')
   \<and> map fst (torrent_handles (snd (delete_torrent ''a'' (engine_drops 0 (snd (monitor_tick 10
       (two_transfers (Some downloading_status) (Some seeding_status))))))))
     = [''a'', ''b'']
   \<and> map fst (download_stats (snd (delete_torrent ''a'' (engine_drops 0 (snd (monitor_tick 10
       (two_transfers (Some downloading_status) (Some seeding_status))))))))
     = [''a'', ''b'']
   \<and> global_download_rate (get_system_stats (snd (delete_torrent ''a'' (engine_drops 0
       (snd (monitor_tick 10
         (two_transfers (Some downloading_status) (Some seeding_status)))))))) = 100
   \<and> global_upload_rate (get_system_stats (snd (delete_torrent ''a'' (engine_drops 0
       (snd (monitor_tick 10
         (two_transfers (Some downloading_status) (Some seeding_status)))))))) = 30
   \<and> map fst (torrent_handles (snd (delete_torrent ''a'' (snd (monitor_tick 10
       (two_transfers (Some downloading_status) (Some seeding_status)))))))
     = [''b'']
   \<and> map fst (download_stats (snd (delete_torrent ''a'' (snd (monitor_tick 10
       (two_transfers (Some downloading_status) (Some seeding_status)))))))
     = [''b'']
   \<and> global_download_rate (get_system_stats (snd (delete_torrent ''a'' (snd (monitor_tick 10
       (two_transfers (Some downloading_status) (Some seeding_status))))))) = 0
   \<and> global_upload_rate (get_system_stats (snd (delete_torrent ''a'' (snd (monitor_tick 10
       (two_transfers (Some downloading_status) (Some seeding_status))))))) = 20"
  by (simp add: example_defs monitor_defs delete_torrent_def remove_torrent_def
        invalid_handle_def get_system_stats_def)

text \<open>In general, when the handle of the registered transfer is valid: the key leaves
  both maps, the global rates of \<open>get_system_stats\<close> are the sums over the entries of the
  other transfers, and the next tick of the monitor does not bring the key back into
  \<open>download_stats\<close>, which is what it broadcasts.\<close>

lemma delete_clears_both_maps:
  assumes "map_of (torrent_handles st) torrent_id = Some handle"
      and "torrents (ses st) handle = Some t"
  shows "torrent_id \<notin> fst ` set (torrent_handles (snd (delete_torrent torrent_id st)))
       \<and> torrent_id \<notin> fst ` set (download_stats (snd (delete_torrent torrent_id st)))
       \<and> download_stats (snd (delete_torrent torrent_id st))
           = filter (\<lambda>kv. fst kv \<noteq> torrent_id) (download_stats st)
       \<and> global_download_rate (get_system_stats (snd (delete_torrent torrent_id st)))
           = sum_list (map (\<lambda>kv. stats_download_rate (snd kv))
               (filter (\<lambda>kv. fst kv \<noteq> torrent_id) (download_stats st)))
       \<and> global_upload_rate (get_system_stats (snd (delete_torrent torrent_id st)))
           = sum_list (map (\<lambda>kv. stats_upload_rate (snd kv))
               (filter (\<lambda>kv. fst kv \<noteq> torrent_id) (download_stats st)))
       \<and> torrent_id \<notin> fst ` set (download_stats
                          (snd (monitor_tick now (snd (delete_torrent torrent_id st)))))"
proof -
  let ?st' = "snd (delete_torrent torrent_id st)"
  have flt: "AList.delete torrent_id (download_stats st)
             = filter (\<lambda>kv. fst kv \<noteq> torrent_id) (download_stats st)"
    unfolding AList.delete_eq by (rule filter_cong) auto
  have h: "torrent_handles ?st' = AList.delete torrent_id (torrent_handles st)"
    using assms by (simp add: delete_torrent_def Let_def remove_torrent_def)
  have s: "download_stats ?st' = AList.delete torrent_id (download_stats st)"
    using assms
    by (auto simp: delete_torrent_def Let_def remove_torrent_def map_of_eq_None_iff)
  have nh: "torrent_id \<notin> fst ` set (torrent_handles ?st')"
    unfolding h by (rule AList.delete_notin_dom)
  have ns: "torrent_id \<notin> fst ` set (download_stats ?st')"
    unfolding s by (rule AList.delete_notin_dom)
  have tick: "torrent_id \<notin> fst ` set (download_stats (snd (monitor_tick now ?st')))"
    using monitor_loop_stats_keys [of now "torrent_handles ?st'" ?st'] nh ns
    unfolding monitor_tick_stats by blast
  have rates: "global_download_rate (get_system_stats ?st')
                 = sum_list (map (\<lambda>kv. stats_download_rate (snd kv)) (download_stats ?st'))"
              "global_upload_rate (get_system_stats ?st')
                 = sum_list (map (\<lambda>kv. stats_upload_rate (snd kv)) (download_stats ?st'))"
    by (simp_all add: get_system_stats_def)
  from nh ns tick rates s flt show ?thesis by simp
qed

text \<open>
  C3. The run that fails the claim: at time 100 a client uploads the torrent file of
  \<open>a\<close>, wanting it to start at 3700. The route \<open>upload_torrent\<close> has no parameter for the
  start time, so the record it returns and stores is \<open>queued\<close> with no
  \<open>scheduled_start\<close>, the torrent it adds to the session is not paused, and the first
  tick reports it as \<open>downloading\<close>. The helper \<open>add_torrent_to_session\<close>, called with
  \<open>scheduled_start\<close> 3700 in its \<open>params\<close>, does pause the torrent.
\<close>

theorem upload_never_paused:
  "fst (upload_torrent parse_ab ''c'' 100 \<lparr>filename = ''a.torrent'', content = [1]\<rparr>
          None None empty_server)
     = Inr (new_doc ''c'' info_a 100)
   \<and> doc_status (new_doc ''c'' info_a 100) = ''queued''
   \<and> doc_scheduled_start (new_doc ''c'' info_a 100) = None
   \<and> map_option (\<lambda>t. paused (status t))
       (torrents (ses (snd (upload_torrent parse_ab ''c'' 100
          \<lparr>filename = ''a.torrent'', content = [1]\<rparr> None None empty_server))) 0)
     = Some False
   \<and> map_option doc_status (find_one ''c'' (db_torrents (snd (monitor_tick 102
       (snd (upload_torrent parse_ab ''c'' 100
          \<lparr>filename = ''a.torrent'', content = [1]\<rparr> None None empty_server))))))
     = Some ''downloading''
   \<and> map_option (\<lambda>t. paused (status t))
       (torrents (ses (snd (add_torrent_to_session parse_ab 100 [1] ''c''
          \<lparr>p_download_speed_limit = None, p_upload_speed_limit = None,
           p_scheduled_start = Some 3700\<rparr> empty_server))) 0)
     = Some True"
  by (simp add: example_defs upload_defs monitor_defs)

text \<open>A file named \<open>a.torrent\<close> whose bytes the parser rejects: the answer is the HTTP
  error 500, not 400.\<close>

theorem unparseable_upload_counterexample:
  "fst (upload_torrent parse_ab ''c'' 100 \<lparr>filename = ''a.torrent'', content = [9]\<rparr>
          None None empty_server)
     = Inl (HTTPException 500 (Str (LibtorrentError ''not a torrent'')))
   \<and> fst (upload_torrent parse_ab ''c'' 100 \<lparr>filename = ''a.torrent'', content = [9]\<rparr>
          None None empty_server)
     \<noteq> Inl (HTTPException 400 (Detail ''File must be a .torrent file''))"
  by (simp add: example_defs upload_defs)

text \<open>
  C6, as the code has it. A create request whose file name ends in \<open>.torrent\<close> and whose
  content the parser rejects fails with the HTTP error 500 that carries the parser's
  message; apart from the log line nothing is written: no record, no registry entry,
  no torrent in the session.
\<close>

theorem unparseable_upload_is_500:
  assumes "endswith (filename file) ''.torrent''"
      and "lt_torrent_info (content file) = Inl msg"
  shows "upload_torrent lt_torrent_info uuid4 now file download_speed_limit upload_speed_limit st
         = (Inl (HTTPException 500 (Str (LibtorrentError msg))),
            st\<lparr>log := log st @ [Error_uploading (LibtorrentError msg)]\<rparr>)"
  using assms by (simp add: upload_torrent_def logger_def Let_def)

theorem unparseable_upload_is_500_witness:
  "endswith (filename \<lparr>filename = ''a.torrent'', content = [9]\<rparr>) ''.torrent''
   \<and> parse_ab (content \<lparr>filename = ''a.torrent'', content = [9]\<rparr>) = Inl ''not a torrent''
   \<and> upload_torrent parse_ab ''c'' 100 \<lparr>filename = ''a.torrent'', content = [9]\<rparr> None None
       (two_transfers (Some downloading_status) (Some downloading_status))
     = (Inl (HTTPException 500 (Str (LibtorrentError ''not a torrent''))),
        (two_transfers (Some downloading_status) (Some downloading_status))
          \<lparr>log := [Error_uploading (LibtorrentError ''not a torrent'')]\<rparr>)"
proof -
  have h1: "endswith (filename \<lparr>filename = ''a.torrent'', content = [9]\<rparr>) ''.torrent''"
    by (simp add: endswith_def)
  have h2: "parse_ab (content \<lparr>filename = ''a.torrent'', content = [9]\<rparr>) = Inl ''not a torrent''"
    by (simp add: parse_ab_def)
  from unparseable_upload_is_500 [of "\<lparr>filename = ''a.torrent'', content = [9]\<rparr>" parse_ab
         "''not a torrent''" "''c''" 100 None None
         "two_transfers (Some downloading_status) (Some downloading_status)", OF h1 h2] h1 h2
  show ?thesis by (simp add: two_transfers_def)
qed

end
